theory Spec2Isabelle
  imports Main "HOL-Library.Multiset"
begin

section \<open>S3ToPostgresOperator: a shallow embedding\<close>

text \<open>
  The development embeds \<^verbatim>\<open>dags/operators/s3_to_postgres_operator.py\<close>: the
  constructor of \<^verbatim>\<open>S3ToPostgresOperator\<close> and its \<^verbatim>\<open>execute\<close> method.
  The S3 client, the UTF-8 codec, the JSON parser and the Postgres hook are libraries
  the operator calls; their answers are taken from an environment record and every call
  the operator makes to a store is written to a trace, in program order.
\<close>

subsection \<open>Python values\<close>

text \<open>
  Constructor arguments are arbitrary Python objects. The operator looks at them in two
  places only: \<^verbatim>\<open>self.get_latest == True\<close> and \<^verbatim>\<open>isinstance(self.schema, tuple)\<close>.
\<close>

datatype pyval =
    PNone
  | PBool bool
  | PInt int
  | PStr string
  | PTuple "pyval list"

text \<open>The value of a parsed JSON document (\<^verbatim>\<open>json.loads\<close>); \<open>JNull\<close> is Python's
  \<^verbatim>\<open>None\<close> and numbers are the integers. An object is the Python dictionary, its
  members in insertion order and their names distinct.\<close>

datatype json =
    JNull
  | JBool bool
  | JNum int
  | JStr string
  | JArr "json list"
  | JObj "(string \<times> json) list"

text \<open>
  Exceptions. The first group is what the interpreter raises inside \<^verbatim>\<open>execute\<close>;
  \<open>External\<close> is an exception raised inside a library call and named by the
  environment; the last group is the error taxonomy of the specification.
\<close>

datatype exn =
    UnboundLocalError string
  | KeyError string
  | ValueError
  | TypeError
  | IndexError
  | AttributeError
  | External string
  | NotFoundError
  | EncodingError
  | FormatError
  | MissingFieldError json string
  | LoadError exn

subsection \<open>The operator object\<close>

record operator =
  s3_conn_id :: pyval
  s3_bucket :: pyval
  s3_prefix :: pyval
  source_data_type :: pyval
  postgres_conn_id :: pyval
  schema :: pyval
  table :: pyval
  get_latest :: pyval

text \<open>
  \<^verbatim>\<open>__init__\<close>, lines 39 to 46. The assignments to \<^verbatim>\<open>self.schema\<close> and
  \<^verbatim>\<open>self.table\<close> end in a comma, so each stores a one-element tuple.
\<close>

definition S3ToPostgresOperator_init ::
  "pyval \<Rightarrow> pyval \<Rightarrow> pyval \<Rightarrow> pyval \<Rightarrow> pyval \<Rightarrow> pyval \<Rightarrow> pyval \<Rightarrow> pyval \<Rightarrow> operator" where
  "S3ToPostgresOperator_init s3_conn_id' s3_bucket' s3_prefix' source_data_type'
       postgres_conn_id' schema' table' get_latest' =
     \<lparr> s3_conn_id = s3_conn_id',
       s3_bucket = s3_bucket',
       s3_prefix = s3_prefix',
       source_data_type = source_data_type',
       postgres_conn_id = postgres_conn_id',
       schema = PTuple [schema'],
       table = PTuple [table'],
       get_latest = get_latest' \<rparr>"

text \<open>The operator built from the defaults of the signature (lines 26 to 33).\<close>

definition default_operator :: operator where
  "default_operator =
     S3ToPostgresOperator_init PNone PNone (PStr []) (PStr [])
       (PStr ''postgres_default'') (PStr ''public'') (PStr ''raw_load'') (PBool False)"

text \<open>A plain scalar configuration value: a string.\<close>

fun is_scalar :: "pyval \<Rightarrow> bool" where
  "is_scalar (PStr s) = True"
| "is_scalar v = False"

subsection \<open>The libraries the operator calls\<close>

text \<open>One entry of the \<^verbatim>\<open>Contents\<close> list of a \<^verbatim>\<open>list_objects_v2\<close> response; the
  time stamp is a point on a linear time line.\<close>

record s3_object =
  Key :: string
  LastModified :: int

type_synonym bytes = "char list"

text \<open>A parameter group of the statement: the dictionary built for one record, in the
  order of the dictionary display.\<close>

type_synonym params = "(string \<times> json) list"

text \<open>The table written to, \<^verbatim>\<open>f'{schema}.{table}'\<close>, kept as its two parts.\<close>

type_synonym target = "pyval \<times> pyval"

text \<open>
  What the libraries answer. \<open>list_objects_v2\<close> gives the \<^verbatim>\<open>Contents\<close> entry of the
  response, \<open>None\<close> when the response has no such entry; \<open>get_object\<close> gives the bytes
  that \<^verbatim>\<open>s3_obj['Body'].read()\<close> returns; \<open>pg_execute\<close> is one execution of the insert
  statement inside \<^verbatim>\<open>executemany\<close>, given the groups already executed on the cursor. A
  library call that raises answers with the exception.
\<close>

record env =
  s3_client :: "pyval \<Rightarrow> exn option"
  list_objects_v2 :: "pyval \<Rightarrow> pyval \<Rightarrow> exn + s3_object list option"
  get_object :: "pyval \<Rightarrow> string \<Rightarrow> exn + bytes"
  utf8_decode :: "bytes \<Rightarrow> exn + string"
  json_loads :: "string \<Rightarrow> exn + json"
  pg_get_conn :: "pyval \<Rightarrow> exn option"
  pg_insert_rows :: "target \<Rightarrow> string list \<Rightarrow> exn option"
  pg_execute :: "params list \<Rightarrow> params \<Rightarrow> exn option"
  pg_commit :: "exn option"

text \<open>The calls made to the two stores. \<open>Rollback\<close> is part of the connection's
  interface; the trace of a run shows whether it was called.\<close>

datatype event =
    ListObjectsV2 pyval pyval
  | GetObject pyval string
  | GetConn pyval
  | Cursor
  | InsertRows target "string list"
  | Execute target params
  | Commit
  | Rollback
  | CursorClose

subsection \<open>Selecting the source object (lines 57 to 60)\<close>

text \<open>\<^verbatim>\<open>self.get_latest == True\<close>: Python's equality holds for \<^verbatim>\<open>True\<close> and for \<^verbatim>\<open>1\<close>.\<close>

fun eq_True :: "pyval \<Rightarrow> bool" where
  "eq_True (PBool b) = b"
| "eq_True (PInt i) = (i = 1)"
| "eq_True v = False"

text \<open>\<^verbatim>\<open>max(objects, key=...)\<close>: the first item is the candidate, and a later item
  replaces it only when its key is strictly greater; the empty sequence raises.\<close>

fun max_fold :: "('a \<Rightarrow> int) \<Rightarrow> 'a \<Rightarrow> 'a list \<Rightarrow> 'a" where
  "max_fold k best [] = best"
| "max_fold k best (x # xs) = max_fold k (if k x > k best then x else best) xs"

definition py_max :: "('a \<Rightarrow> int) \<Rightarrow> 'a list \<Rightarrow> exn + 'a" where
  "py_max k xs = (case xs of [] \<Rightarrow> Inl ValueError | x # rest \<Rightarrow> Inr (max_fold k x rest))"

text \<open>The result is the local variable \<^verbatim>\<open>s3_obj\<close>: \<open>None\<close> when the branch that
  assigns it was not taken.\<close>

definition select_source :: "env \<Rightarrow> operator \<Rightarrow> event list \<times> (exn + bytes option)" where
  "select_source env self =
     (if eq_True (get_latest self) then
        (case list_objects_v2 env (s3_bucket self) (s3_prefix self) of
           Inl e \<Rightarrow> ([ListObjectsV2 (s3_bucket self) (s3_prefix self)], Inl e)
         | Inr None \<Rightarrow>
             ([ListObjectsV2 (s3_bucket self) (s3_prefix self)], Inl (KeyError ''Contents''))
         | Inr (Some objects) \<Rightarrow>
             (case py_max LastModified objects of
                Inl e \<Rightarrow> ([ListObjectsV2 (s3_bucket self) (s3_prefix self)], Inl e)
              | Inr latest \<Rightarrow>
                  ([ListObjectsV2 (s3_bucket self) (s3_prefix self),
                    GetObject (s3_bucket self) (Key latest)],
                   (case get_object env (s3_bucket self) (Key latest) of
                      Inl e \<Rightarrow> Inl e
                    | Inr body \<Rightarrow> Inr (Some body)))))
      else ([], Inr None))"

subsection \<open>Decoding (lines 62 and 63)\<close>

definition decode :: "env \<Rightarrow> bytes option \<Rightarrow> exn + json" where
  "decode env s3_obj =
     (case s3_obj of
        None \<Rightarrow> Inl (UnboundLocalError ''s3_obj'')
      | Some body \<Rightarrow>
          (case utf8_decode env body of
             Inl e \<Rightarrow> Inl e
           | Inr file_content \<Rightarrow> json_loads env file_content))"

subsection \<open>Building the parameter groups (lines 125 to 157)\<close>

text \<open>\<^verbatim>\<open>line[key]\<close> and \<^verbatim>\<open>line.get(key, None)\<close> on a parsed JSON value.\<close>

fun subscript :: "json \<Rightarrow> string \<Rightarrow> exn + json" where
  "subscript (JObj kvs) k = (case map_of kvs k of None \<Rightarrow> Inl (KeyError k) | Some v \<Rightarrow> Inr v)"
| "subscript v k = Inl TypeError"

fun py_get :: "json \<Rightarrow> string \<Rightarrow> exn + json" where
  "py_get (JObj kvs) k = Inr (case map_of kvs k of None \<Rightarrow> JNull | Some v \<Rightarrow> v)"
| "py_get v k = Inl AttributeError"

text \<open>The keys read with \<^verbatim>\<open>.get\<close>, lines 130 to 156.\<close>

definition optional_fields :: "string list" where
  "optional_fields =
     [''address'', ''city'', ''state'', ''zip'', ''file_date'', ''non_payment'', ''breach'',
      ''nuisance'', ''illegal_use'', ''failure_to_sign_renewal'', ''access_denial'',
      ''unapproved_subtenant'', ''owner_move_in'', ''demolition'', ''capital_improvement'',
      ''substantial_rehab'', ''ellis_act_withdrawal'', ''condo_conversion'',
      ''roommate_same_unit'', ''other_cause'', ''late_payments'', ''lead_remediation'',
      ''development'', ''good_samaritan_ends'', ''constraints_date'', ''supervisor_district'',
      ''neighborhood'']"

fun get_all :: "json \<Rightarrow> string list \<Rightarrow> exn + params" where
  "get_all line [] = Inr []"
| "get_all line (k # ks) =
     (case py_get line k of
        Inl e \<Rightarrow> Inl e
      | Inr v \<Rightarrow> (case get_all line ks of Inl e \<Rightarrow> Inl e | Inr r \<Rightarrow> Inr ((k, v) # r)))"

text \<open>The dictionary display of lines 125 to 157, evaluated entry by entry.\<close>

definition build_params :: "json \<Rightarrow> exn + params" where
  "build_params line =
     (case subscript line '':id'' of Inl e \<Rightarrow> Inl e | Inr v1 \<Rightarrow>
     (case subscript line '':created_at'' of Inl e \<Rightarrow> Inl e | Inr v2 \<Rightarrow>
     (case subscript line '':updated_at'' of Inl e \<Rightarrow> Inl e | Inr v3 \<Rightarrow>
     (case subscript line ''eviction_id'' of Inl e \<Rightarrow> Inl e | Inr v4 \<Rightarrow>
     (case get_all line optional_fields of Inl e \<Rightarrow> Inl e | Inr rest \<Rightarrow>
        Inr ([('':id'', v1), ('':created_at'', v2), ('':updated_at'', v3),
              (''eviction_id'', v4)] @ rest))))))"

text \<open>The column list (lines 85 to 115) and the placeholders (lines 118 to 123) of the
  statement; the n-th placeholder fills the n-th column.\<close>

definition columns :: "string list" where
  "columns =
     [''raw_id'', ''created_at'', ''updated_at'', ''eviction_id'', ''address'', ''city'',
      ''state'', ''zip'', ''file_date'', ''non_payment'', ''breach'', ''nuisance'',
      ''illegal_use'', ''failure_to_sign_renewal'', ''access_denial'',
      ''unapproved_subtenant'', ''owner_move_in'', ''demolition'', ''capital_improvement'',
      ''substantial_rehab'', ''ellis_act_withdrawal'', ''condo_conversion'',
      ''roommate_same_unit'', ''other_cause'', ''late_payments'', ''lead_remediation'',
      ''development'', ''good_samaritan_ends'', ''constraints_date'', ''supervisor_district'',
      ''neighborhood'']"

definition placeholders :: "string list" where
  "placeholders =
     ['':id'', '':created_at'', '':updated_at'', ''eviction_id'', ''address'', ''city'',
      ''state'', ''zip'', ''file_date'', ''non_payment'', ''breach'', ''nuisance'',
      ''illegal_use'', ''failure_to_sign_renewal'', ''access_denial'',
      ''unapproved_subtenant'', ''owner_move_in'', ''demolition'', ''capital_improvement'',
      ''substantial_rehab'', ''ellis_act_withdrawal'', ''condo_conversion'',
      ''roommate_same_unit'', ''other_cause'', ''late_payments'', ''lead_remediation'',
      ''development'', ''good_samaritan_ends'', ''constraints_date'', ''supervisor_district'',
      ''neighborhood'']"

text \<open>The value the statement writes into a column for one parameter group: that of the
  placeholder at the column's position.\<close>

definition column_value :: "params \<Rightarrow> string \<Rightarrow> json option" where
  "column_value p c =
     (case map_of (zip columns placeholders) c of None \<Rightarrow> None | Some ph \<Rightarrow> map_of p ph)"

subsection \<open>Loading (lines 65 to 162)\<close>

text \<open>\<^verbatim>\<open>self.schema[0]\<close> when the field is a tuple, the field itself otherwise.\<close>

fun unwrap :: "pyval \<Rightarrow> exn + pyval" where
  "unwrap (PTuple []) = Inl IndexError"
| "unwrap (PTuple (x # xs)) = Inr x"
| "unwrap v = Inr v"

text \<open>Iterating over \<^verbatim>\<open>json_content\<close>: a list gives its items, a dictionary its keys, a
  string its characters; nothing else is iterable.\<close>

fun py_iter :: "json \<Rightarrow> exn + json list" where
  "py_iter (JArr xs) = Inr xs"
| "py_iter (JObj kvs) = Inr (map (\<lambda>kv. JStr (fst kv)) kvs)"
| "py_iter (JStr s) = Inr (map (\<lambda>c. JStr [c]) s)"
| "py_iter v = Inl TypeError"

text \<open>
  \<^verbatim>\<open>cur.executemany(statement, generator)\<close>: the cursor draws one parameter group at a
  time from the generator and executes the statement with it. Drawing a group evaluates
  the dictionary display for the next record, so an exception of the display surfaces
  after the earlier groups were executed. \<open>done\<close> holds the groups executed so far.
\<close>

fun executemany :: "env \<Rightarrow> target \<Rightarrow> params list \<Rightarrow> json list \<Rightarrow> event list \<times> exn option" where
  "executemany env tgt done [] = ([], None)"
| "executemany env tgt done (line # rest) =
     (case build_params line of
        Inl e \<Rightarrow> ([], Some e)
      | Inr p \<Rightarrow>
          (case pg_execute env done p of
             Some e \<Rightarrow> ([Execute tgt p], Some e)
           | None \<Rightarrow>
               (case executemany env tgt (done @ [p]) rest of
                  (evs, r) \<Rightarrow> (Execute tgt p # evs, r))))"

definition load :: "env \<Rightarrow> operator \<Rightarrow> json \<Rightarrow> event list \<times> (exn + unit)" where
  "load env self json_content =
     (case pg_get_conn env (postgres_conn_id self) of
        Some e \<Rightarrow> ([GetConn (postgres_conn_id self)], Inl e)
      | None \<Rightarrow>
     (case unwrap (schema self) of
        Inl e \<Rightarrow> ([GetConn (postgres_conn_id self), Cursor], Inl e)
      | Inr schema' \<Rightarrow>
     (case unwrap (table self) of
        Inl e \<Rightarrow> ([GetConn (postgres_conn_id self), Cursor], Inl e)
      | Inr table' \<Rightarrow>
     (let opened = [GetConn (postgres_conn_id self), Cursor,
                    InsertRows (schema', table') [''1'', ''2'', ''3'']]
      in
     (case pg_insert_rows env (schema', table') [''1'', ''2'', ''3''] of
        Some e \<Rightarrow> (opened, Inl e)
      | None \<Rightarrow>
     (case py_iter json_content of
        Inl e \<Rightarrow> (opened, Inl e)
      | Inr lines \<Rightarrow>
     (case executemany env (schema', table') [] lines of
        (evs, Some e) \<Rightarrow> (opened @ evs, Inl e)
      | (evs, None) \<Rightarrow>
     (case pg_commit env of
        Some e \<Rightarrow> (opened @ evs @ [Commit], Inl e)
      | None \<Rightarrow> (opened @ evs @ [Commit, CursorClose], Inr ())))))))))"

subsection \<open>The whole method\<close>

definition execute :: "env \<Rightarrow> operator \<Rightarrow> event list \<times> (exn + unit)" where
  "execute env self =
     (case s3_client env (s3_conn_id self) of
        Some e \<Rightarrow> ([], Inl e)
      | None \<Rightarrow>
     (case select_source env self of
        (tr1, Inl e) \<Rightarrow> (tr1, Inl e)
      | (tr1, Inr s3_obj) \<Rightarrow>
     (case decode env s3_obj of
        Inl e \<Rightarrow> (tr1, Inl e)
      | Inr json_content \<Rightarrow>
     (case load env self json_content of
        (tr2, r) \<Rightarrow> (tr1 @ tr2, r)))))"

subsection \<open>Shapes of a parsed document\<close>

text \<open>The two shapes the decoder's contract speaks of.\<close>

fun is_mapping :: "json \<Rightarrow> bool" where
  "is_mapping (JObj kvs) = True"
| "is_mapping v = False"

fun is_sequence :: "json \<Rightarrow> bool" where
  "is_sequence (JArr xs) = True"
| "is_sequence v = False"

subsection \<open>What a run leaves in the target table\<close>

text \<open>
  The rows a run has written, read off its trace. This is the behaviour of the two
  library calls, not of the operator's own code. \<^verbatim>\<open>insert_rows(table, rows)\<close> of the
  hook takes every item of \<^verbatim>\<open>rows\<close> as one row and every item of a row as one cell (the
  items of the string \<^verbatim>\<open>'1'\<close> are its characters), works on a connection of its own and
  commits before it returns: a call that returns has written its rows, a call that
  raises has written none. The statements executed on the operator's cursor are written
  when \<^verbatim>\<open>commit\<close> is called on the operator's connection and returns. A row of the
  batch is the values of its parameter group, in placeholder order.
\<close>

type_synonym row = "json list"





subsection \<open>Concrete runs\<close>

text \<open>
  A record holding the four fields the dictionary display subscripts and nothing else; an
  operator in latest mode; and libraries that answer with a given listing and a given
  parsed document, over a table that rejects a row whose \<^verbatim>\<open>eviction_id\<close> was already
  inserted on the cursor. The documents and listings below are the inputs of the runs
  evaluated in the last section.
\<close>

definition record_of :: "string \<Rightarrow> json" where
  "record_of i =
     JObj [('':id'', JStr i), ('':created_at'', JStr ''2020-01-01''),
           ('':updated_at'', JStr ''2020-01-02''), (''eviction_id'', JStr i)]"

definition latest_operator :: operator where
  "latest_operator =
     S3ToPostgresOperator_init (PStr ''aws'') (PStr ''sf-evictions'') (PStr ''raw/'') (PStr ''json'')
       (PStr ''postgres_default'') (PStr ''public'') (PStr ''raw_load'') (PBool True)"

definition store :: "s3_object list option \<Rightarrow> json \<Rightarrow> env" where
  "store listing doc =
     \<lparr> s3_client = (\<lambda>c. None),
       list_objects_v2 = (\<lambda>b p. Inr listing),
       get_object = (\<lambda>b k. Inr k),
       utf8_decode = (\<lambda>b. Inr b),
       json_loads = (\<lambda>t. Inr doc),
       pg_get_conn = (\<lambda>c. None),
       pg_insert_rows = (\<lambda>t r. None),
       pg_execute = (\<lambda>done p.
          if map_of p ''eviction_id'' \<in> set (map (\<lambda>q. map_of q ''eviction_id'') done)
          then Some (External ''UniqueViolation'') else None),
       pg_commit = None \<rparr>"

definition three_objects :: "s3_object list" where
  "three_objects =
     [\<lparr>Key = ''raw/a.json'', LastModified = 2\<rparr>,
      \<lparr>Key = ''raw/b.json'', LastModified = 3\<rparr>,
      \<lparr>Key = ''raw/c.json'', LastModified = 3\<rparr>,
      \<lparr>Key = ''raw/d.json'', LastModified = 1\<rparr>]"

definition five_then_dup :: json where
  "five_then_dup =
     JArr [record_of ''M100'', record_of ''M101'', record_of ''M102'', record_of ''M103'',
           record_of ''M104'', record_of ''M100'']"

definition no_eviction_id :: json where
  "no_eviction_id =
     JObj [('':id'', JStr ''row-2''), ('':created_at'', JStr ''2020-01-01''),
           ('':updated_at'', JStr ''2020-01-02''), (''address'', JStr ''100 Block Of Main St'')]"

definition one_record :: json where
  "one_record = JArr [record_of ''M100'']"

definition valid_then_missing :: "json list" where
  "valid_then_missing = [record_of ''M100'', no_eviction_id]"

definition only_eviction_id :: json where
  "only_eviction_id = JObj [(''eviction_id'', JStr ''M100'')]"

definition eviction_id_and_address :: json where
  "eviction_id_and_address =
     JObj [(''eviction_id'', JStr ''M100''), (''address'', JStr ''100 Block Of Main St'')]"



section \<open>Properties\<close>

subsection \<open>The maximum fold\<close>

lemma max_fold_mem: "max_fold k b xs \<in> set (b # xs)"
  by (induction xs arbitrary: b) auto

lemma max_fold_ge_best: "k b \<le> k (max_fold k b xs)"
proof (induction xs arbitrary: b)
  case Nil show ?case by simp
next
  case (Cons x xs)
  show ?case
  proof (cases "k b < k x")
    case True
    with Cons [of x] show ?thesis by simp
  next
    case False
    with Cons [of b] show ?thesis by simp
  qed
qed

lemma max_fold_ge: "y \<in> set (b # xs) \<Longrightarrow> k y \<le> k (max_fold k b xs)"
proof (induction xs arbitrary: b)
  case Nil then show ?case by simp
next
  case (Cons x xs)
  show ?case
  proof (cases "k b < k x")
    case True
    have "k y \<le> k (max_fold k x xs)"
    proof (cases "y = b")
      case True
      with \<open>k b < k x\<close> max_fold_ge_best [of k x xs] show ?thesis by simp
    next
      case False
      with Cons.prems have "y \<in> set (x # xs)" by simp
      then show ?thesis by (rule Cons.IH)
    qed
    with True show ?thesis by simp
  next
    case False
    have "k y \<le> k (max_fold k b xs)"
    proof (cases "y = x")
      case True
      with False max_fold_ge_best [of k b xs] show ?thesis by simp
    next
      case False
      with Cons.prems have "y \<in> set (b # xs)" by auto
      then show ?thesis by (rule Cons.IH)
    qed
    with False show ?thesis by simp
  qed
qed

lemma max_fold_first:
  "\<exists>pre post. b # xs = pre @ max_fold k b xs # post \<and> (\<forall>y \<in> set pre. k y < k (max_fold k b xs))"
proof (induction xs arbitrary: b)
  case Nil
  have "[b] = [] @ max_fold k b [] # [] \<and> (\<forall>y \<in> set []. k y < k (max_fold k b []))" by simp
  then show ?case by blast
next
  case (Cons x xs)
  show ?case
  proof (cases "k b < k x")
    case True
    then have eq: "max_fold k b (x # xs) = max_fold k x xs" by simp
    from Cons [of x] obtain pre post where
      d: "x # xs = pre @ max_fold k x xs # post" and s: "\<forall>y \<in> set pre. k y < k (max_fold k x xs)"
      by blast
    from True max_fold_ge_best [of k x xs] have "k b < k (max_fold k x xs)" by simp
    with d s have "b # x # xs = (b # pre) @ max_fold k x xs # post
        \<and> (\<forall>y \<in> set (b # pre). k y < k (max_fold k x xs))" by simp
    then show ?thesis unfolding eq by blast
  next
    case False
    define m where "m = max_fold k b xs"
    from False have eq: "max_fold k b (x # xs) = m" by (simp add: m_def)
    from Cons [of b] obtain pre post where
      d: "b # xs = pre @ m # post" and s: "\<forall>y \<in> set pre. k y < k m"
      unfolding m_def by blast
    show ?thesis
    proof (cases pre)
      case Nil
      with d have "b # x # xs = [] @ m # (x # xs) \<and> (\<forall>y \<in> set []. k y < k m)" by simp
      then show ?thesis unfolding eq by blast
    next
      case (Cons b' pre')
      with d have b: "b' = b" and xs: "xs = pre' @ m # post" by simp_all
      from s Cons b have "k b < k m" by simp
      with False have "k x < k m" by simp
      with s Cons b xs have "b # x # xs = (b # x # pre') @ m # post
        \<and> (\<forall>y \<in> set (b # x # pre'). k y < k m)" by simp
      then show ?thesis unfolding eq by blast
    qed
  qed
qed

lemma py_max_nonempty: "xs \<noteq> [] \<Longrightarrow> \<exists>m. py_max k xs = Inr m \<and> m \<in> set xs \<and> (\<forall>y \<in> set xs. k y \<le> k m)
   \<and> (\<exists>pre post. xs = pre @ m # post \<and> (\<forall>y \<in> set pre. k y < k m))"
proof (cases xs)
  case Nil then show "xs \<noteq> [] \<Longrightarrow> ?thesis" by simp
next
  case (Cons b rest)
  have "py_max k xs = Inr (max_fold k b rest)" by (simp add: py_max_def Cons)
  moreover have "max_fold k b rest \<in> set xs" using max_fold_mem [of k b rest] Cons by simp
  moreover have "\<forall>y \<in> set xs. k y \<le> k (max_fold k b rest)" using max_fold_ge [of _ b rest k] Cons by blast
  moreover have "\<exists>pre post. xs = pre @ max_fold k b rest # post \<and> (\<forall>y \<in> set pre. k y < k (max_fold k b rest))"
    using max_fold_first [of b rest k] Cons by simp
  ultimately show ?thesis by blast
qed


subsection \<open>The batch loop\<close>

lemma executemany_events:
  "ev \<in> set (fst (executemany env tgt done lines)) \<Longrightarrow> \<exists>p. ev = Execute tgt p"
proof (induction lines arbitrary: "done")
  case Nil
  then show ?case by simp
next
  case (Cons line rest)
  show ?case
  proof (cases "build_params line")
    case (Inl e)
    with Cons.prems show ?thesis by simp
  next
    case (Inr p)
    show ?thesis
    proof (cases "pg_execute env done p")
      case (Some e)
      with Inr Cons.prems show ?thesis by simp
    next
      case None
      with Inr Cons.prems
      have "ev = Execute tgt p \<or> ev \<in> set (fst (executemany env tgt (done @ [p]) rest))"
        by (simp split: prod.splits)
      with Cons.IH [of "done @ [p]"] show ?thesis by blast
    qed
  qed
qed

lemma executemany_no_commit: "Commit \<notin> set (fst (executemany env tgt done lines))"
  using executemany_events [of Commit env tgt "done" lines] by auto

lemma executemany_no_rollback: "Rollback \<notin> set (fst (executemany env tgt done lines))"
  using executemany_events [of Rollback env tgt "done" lines] by auto

lemma executemany_fails:
  "line \<in> set lines \<Longrightarrow> build_params line = Inl e' \<Longrightarrow>
     \<exists>e. snd (executemany env tgt done lines) = Some e"
proof (induction lines arbitrary: "done")
  case Nil
  then show ?case by simp
next
  case (Cons l rest)
  show ?case
  proof (cases "build_params l")
    case (Inl e)
    then show ?thesis by simp
  next
    case (Inr p)
    with Cons.prems have mem: "line \<in> set rest" by auto
    show ?thesis
    proof (cases "pg_execute env done p")
      case (Some e)
      with Inr show ?thesis by simp
    next
      case None
      from Cons.IH [OF mem Cons.prems(2), of "done @ [p]"] obtain e where
        "snd (executemany env tgt (done @ [p]) rest) = Some e" by blast
      with Inr None show ?thesis
        by (cases "executemany env tgt (done @ [p]) rest") simp
    qed
  qed
qed

subsection \<open>Parameter groups and the concrete runs\<close>

lemma get_all_JObj:
  "get_all (JObj kvs) ks =
     Inr (map (\<lambda>k. (k, case map_of kvs k of None \<Rightarrow> JNull | Some v \<Rightarrow> v)) ks)"
  by (induction ks) simp_all

lemma build_record_of:
  "build_params (record_of i) =
     Inr ([('':id'', JStr i), ('':created_at'', JStr ''2020-01-01''),
           ('':updated_at'', JStr ''2020-01-02''), (''eviction_id'', JStr i)]
          @ map (\<lambda>k. (k, JNull)) optional_fields)"
  by (simp add: build_params_def record_of_def get_all_JObj optional_fields_def)

lemma store_simps:
  "s3_client (store listing doc) = (\<lambda>c. None)"
  "list_objects_v2 (store listing doc) = (\<lambda>b p. Inr listing)"
  "get_object (store listing doc) = (\<lambda>b k. Inr k)"
  "utf8_decode (store listing doc) = (\<lambda>b. Inr b)"
  "json_loads (store listing doc) = (\<lambda>t. Inr doc)"
  "pg_get_conn (store listing doc) = (\<lambda>c. None)"
  "pg_insert_rows (store listing doc) = (\<lambda>t r. None)"
  "pg_execute (store listing doc) = (\<lambda>done p.
          if map_of p ''eviction_id'' \<in> set (map (\<lambda>q. map_of q ''eviction_id'') done)
          then Some (External ''UniqueViolation'') else None)"
  "pg_commit (store listing doc) = None"
  by (simp_all add: store_def)

lemma latest_operator_simps:
  "s3_conn_id latest_operator = PStr ''aws''"
  "s3_bucket latest_operator = PStr ''sf-evictions''"
  "s3_prefix latest_operator = PStr ''raw/''"
  "postgres_conn_id latest_operator = PStr ''postgres_default''"
  "schema latest_operator = PTuple [PStr ''public'']"
  "table latest_operator = PTuple [PStr ''raw_load'']"
  "get_latest latest_operator = PBool True"
  by (simp_all add: latest_operator_def S3ToPostgresOperator_init_def)

lemma executemany_five_then_dup:
  "snd (executemany (store listing doc) tgt []
       [record_of ''M100'', record_of ''M101'', record_of ''M102'', record_of ''M103'',
        record_of ''M104'', record_of ''M100'']) = Some (External ''UniqueViolation'')"
  by (simp add: build_record_of store_simps)

subsection \<open>Reaching and leaving the load\<close>




lemma load_fails_with_batch:
  assumes "\<And>tgt. \<exists>e. snd (executemany env tgt [] lines) = Some e"
  shows "(\<exists>e. snd (load env self (JArr lines)) = Inl e)
       \<and> Commit \<notin> set (fst (load env self (JArr lines)))"
proof (cases "pg_get_conn env (postgres_conn_id self)")
  case (Some e)
  then show ?thesis by (simp add: load_def)
next
  case conn: None
  show ?thesis
  proof (cases "unwrap (schema self)")
    case (Inl e)
    with conn show ?thesis by (simp add: load_def)
  next
    case s: (Inr s)
    show ?thesis
    proof (cases "unwrap (table self)")
      case (Inl e)
      with conn s show ?thesis by (simp add: load_def)
    next
      case t: (Inr t)
      show ?thesis
      proof (cases "pg_insert_rows env (s, t) [''1'', ''2'', ''3'']")
        case (Some e)
        with conn s t show ?thesis by (simp add: load_def)
      next
        case ins: None
        from assms [of "(s, t)"] obtain evs e where
          ex: "executemany env (s, t) [] lines = (evs, Some e)"
          by (cases "executemany env (s, t) [] lines") auto
        then have "Commit \<notin> set evs"
          using executemany_no_commit [of env "(s, t)" "[]" lines] by simp
        with conn s t ins ex show ?thesis by (simp add: load_def)
      qed
    qed
  qed
qed

lemma build_params_missing:
  assumes "map_of kvs ''eviction_id'' = None"
  shows "build_params (JObj kvs) =
     Inl (KeyError (if map_of kvs '':id'' = None then '':id''
                    else if map_of kvs '':created_at'' = None then '':created_at''
                    else if map_of kvs '':updated_at'' = None then '':updated_at''
                    else ''eviction_id''))"
  using assms by (auto simp: build_params_def split: option.splits)

lemma build_no_eviction_id: "build_params no_eviction_id = Inl (KeyError ''eviction_id'')"
  by (simp add: build_params_def no_eviction_id_def)

subsection \<open>Columns and shapes\<close>

lemma build_params_JObj:
  "build_params line = Inr p \<Longrightarrow> \<exists>kvs. line = JObj kvs"
  by (cases line) (simp_all add: build_params_def)

lemma column_of_system_fields:
  "column_value p ''raw_id'' = map_of p '':id''"
  "column_value p ''created_at'' = map_of p '':created_at''"
  "column_value p ''updated_at'' = map_of p '':updated_at''"
  by (simp_all add: column_value_def columns_def placeholders_def)

lemma optional_is_own_placeholder:
  "c \<in> set optional_fields \<Longrightarrow> map_of (zip columns placeholders) c = Some c"
  by (auto simp: optional_fields_def columns_def placeholders_def)

lemma optional_not_required:
  "c \<in> set optional_fields \<Longrightarrow>
     c \<noteq> '':id'' \<and> c \<noteq> '':created_at'' \<and> c \<noteq> '':updated_at'' \<and> c \<noteq> ''eviction_id''"
  by (auto simp: optional_fields_def)

lemma map_of_tabulate: "c \<in> set ks \<Longrightarrow> map_of (map (\<lambda>k. (k, f k)) ks) c = Some (f c)"
  by (induction ks) auto

lemma build_params_not_mapping: "\<not> is_mapping line \<Longrightarrow> build_params line = Inl TypeError"
  by (cases line) (simp_all add: build_params_def)

lemma py_iter_not_sequence:
  "\<not> is_sequence v \<Longrightarrow> py_iter v = Inr lines \<Longrightarrow> line \<in> set lines \<Longrightarrow> \<not> is_mapping line"
  by (cases v) auto

subsection \<open>Rows written and rows executed\<close>

lemma executemany_stops_at_unbuildable:
  assumes "map build_params pre = map Inr ps"
    and "\<forall>i < length ps. pg_execute env (done @ take i ps) (ps ! i) = None"
    and "build_params l = Inl e"
  shows "executemany env tgt done (pre @ l # rest) = (map (Execute tgt) ps, Some e)"
  using assms
proof (induction pre arbitrary: ps "done")
  case Nil
  then show ?case by simp
next
  case (Cons x pre)
  from Cons.prems(1) obtain p ps' where
    ps: "ps = p # ps'" and x: "build_params x = Inr p" and
    m: "map build_params pre = map Inr ps'"
    by (cases ps) auto
  from Cons.prems(2) ps have a0: "pg_execute env done p = None" by auto
  have "\<forall>i < length ps'. pg_execute env ((done @ [p]) @ take i ps') (ps' ! i) = None"
  proof (intro allI impI)
    fix i assume "i < length ps'"
    then have "Suc i < length ps" by (simp add: ps)
    with Cons.prems(2) have "pg_execute env (done @ take (Suc i) ps) (ps ! Suc i) = None"
      by blast
    then show "pg_execute env ((done @ [p]) @ take i ps') (ps' ! i) = None"
      by (simp add: ps)
  qed
  from Cons.IH [OF m this Cons.prems(3)]
  have "executemany env tgt (done @ [p]) (pre @ l # rest) = (map (Execute tgt) ps', Some e)" .
  with x a0 ps show ?case by simp
qed








subsection \<open>The claims\<close>


text \<open>
  C9. The claim: after construction the schema and table fields hold plain strings, not
  one-element tuples. The constructor does the opposite for every choice of arguments:
  both fields hold a one-element tuple wrapping the argument, so neither is a scalar.
\<close>

theorem init_schema_table_are_tuples:
  "schema (S3ToPostgresOperator_init c b p d g s t l) = PTuple [s]
   \<and> table (S3ToPostgresOperator_init c b p d g s t l) = PTuple [t]
   \<and> \<not> is_scalar (schema (S3ToPostgresOperator_init c b p d g s t l))
   \<and> \<not> is_scalar (table (S3ToPostgresOperator_init c b p d g s t l))"
  by (simp add: S3ToPostgresOperator_init_def)

text \<open>
  C7. In latest mode, over a non-empty listing, the object read is one whose time stamp
  is maximal: it is a member of the listing, no entry is newer, every entry before it is
  strictly older (the strict comparison keeps the first maximal candidate), any
  reordering of the listing selects an entry with the same time stamp, and the key passed
  to \<^verbatim>\<open>get_object\<close> is that entry's key.
\<close>

theorem latest_is_maximal:
  assumes "objects \<noteq> []"
  shows "\<exists>latest. py_max LastModified objects = Inr latest
     \<and> latest \<in> set objects
     \<and> (\<forall>ob \<in> set objects. LastModified ob \<le> LastModified latest)
     \<and> (\<exists>pre post. objects = pre @ latest # post
           \<and> (\<forall>ob \<in> set pre. LastModified ob < LastModified latest))
     \<and> (\<forall>objects'. mset objects' = mset objects \<longrightarrow>
           (\<exists>latest'. py_max LastModified objects' = Inr latest'
              \<and> LastModified latest' = LastModified latest))
     \<and> (eq_True (get_latest self)
           \<and> list_objects_v2 env (s3_bucket self) (s3_prefix self) = Inr (Some objects) \<longrightarrow>
         fst (select_source env self) =
           [ListObjectsV2 (s3_bucket self) (s3_prefix self),
            GetObject (s3_bucket self) (Key latest)])"
proof -
  from assms py_max_nonempty [of objects LastModified] obtain latest where
    m: "py_max LastModified objects = Inr latest" and
    mem: "latest \<in> set objects" and
    ge: "\<forall>ob \<in> set objects. LastModified ob \<le> LastModified latest" and
    first: "\<exists>pre post. objects = pre @ latest # post
           \<and> (\<forall>ob \<in> set pre. LastModified ob < LastModified latest)"
    by blast
  have perm: "\<exists>latest'. py_max LastModified objects' = Inr latest'
              \<and> LastModified latest' = LastModified latest"
    if p: "mset objects' = mset objects" for objects'
  proof -
    from p have s: "set objects' = set objects" by (rule mset_eq_setD)
    with assms have "objects' \<noteq> []" by auto
    with py_max_nonempty [of objects' LastModified] obtain latest' where
      m': "py_max LastModified objects' = Inr latest'" and
      mem': "latest' \<in> set objects'" and
      ge': "\<forall>ob \<in> set objects'. LastModified ob \<le> LastModified latest'"
      by blast
    from mem s ge' have "LastModified latest \<le> LastModified latest'" by simp
    moreover from mem' s ge have "LastModified latest' \<le> LastModified latest" by simp
    ultimately show ?thesis using m' by simp
  qed
  have sel: "fst (select_source env self) =
           [ListObjectsV2 (s3_bucket self) (s3_prefix self),
            GetObject (s3_bucket self) (Key latest)]"
    if "eq_True (get_latest self)"
       "list_objects_v2 env (s3_bucket self) (s3_prefix self) = Inr (Some objects)"
    using that m by (simp add: select_source_def)
  from m mem ge first perm sel show ?thesis by blast
qed

theorem latest_is_maximal_witness:
  "three_objects \<noteq> []
   \<and> py_max LastModified three_objects = Inr \<lparr>Key = ''raw/b.json'', LastModified = 3\<rparr>
   \<and> fst (select_source (store (Some three_objects) (JArr [])) latest_operator) =
       [ListObjectsV2 (PStr ''sf-evictions'') (PStr ''raw/''),
        GetObject (PStr ''sf-evictions'') ''raw/b.json'']"
  using latest_is_maximal [of three_objects latest_operator "store (Some three_objects) (JArr [])"]
  by (simp add: three_objects_def py_max_def select_source_def store_def latest_operator_def
        S3ToPostgresOperator_init_def)

text \<open>
  C1. The claim: when the batched insert fails, the transaction is rolled back before
  the error propagates and a \<open>LoadError\<close> wrapping the failure is surfaced. The method
  has no handler around \<^verbatim>\<open>executemany\<close>: with five records accepted and a sixth
  rejected by the table, the exception of the store reaches the caller as it was raised
  and \<^verbatim>\<open>rollback\<close> is never called.
\<close>

theorem rollback_and_LoadError_counterexample:
  "snd (execute (store (Some three_objects) five_then_dup) latest_operator)
     = Inl (External ''UniqueViolation'')
   \<and> snd (execute (store (Some three_objects) five_then_dup) latest_operator)
     \<noteq> Inl (LoadError (External ''UniqueViolation''))
   \<and> Rollback \<notin> set (fst (execute (store (Some three_objects) five_then_dup) latest_operator))"
proof -
  let ?env = "store (Some three_objects) five_then_dup"
  let ?tgt = "(PStr ''public'', PStr ''raw_load'')"
  let ?lines = "[record_of ''M100'', record_of ''M101'', record_of ''M102'', record_of ''M103'',
        record_of ''M104'', record_of ''M100'']"
  obtain evs where ex: "executemany ?env ?tgt [] ?lines = (evs, Some (External ''UniqueViolation''))"
    using executemany_five_then_dup [of "Some three_objects" five_then_dup ?tgt]
    by (cases "executemany ?env ?tgt [] ?lines") simp
  have nr: "Rollback \<notin> set evs"
    using executemany_no_rollback [of ?env ?tgt "[]" ?lines] ex by simp
  have "execute ?env latest_operator =
     ([ListObjectsV2 (PStr ''sf-evictions'') (PStr ''raw/''),
       GetObject (PStr ''sf-evictions'') ''raw/b.json'',
       GetConn (PStr ''postgres_default''), Cursor,
       InsertRows ?tgt [''1'', ''2'', ''3'']] @ evs, Inl (External ''UniqueViolation''))"
    using ex
    by (simp add: execute_def select_source_def decode_def load_def store_simps
          latest_operator_simps three_objects_def py_max_def five_then_dup_def)
  with nr show ?thesis by simp
qed


text \<open>
  C1, as the method behaves: when the batched insert fails, the calls made to the
  relational store are the connection, the cursor, \<^verbatim>\<open>insert_rows\<close> and the statement
  executions up to the failure; neither \<^verbatim>\<open>commit\<close> nor \<^verbatim>\<open>rollback\<close> is called, and
  the caller receives the underlying exception itself.
\<close>

theorem batch_failure_propagates_unwrapped:
  assumes conn: "pg_get_conn env (postgres_conn_id self) = None"
    and s: "unwrap (schema self) = Inr s"
    and t: "unwrap (table self) = Inr t"
    and ins: "pg_insert_rows env (s, t) [''1'', ''2'', ''3''] = None"
    and it: "py_iter json_content = Inr lines"
    and ex: "executemany env (s, t) [] lines = (evs, Some e)"
  shows "load env self json_content =
           ([GetConn (postgres_conn_id self), Cursor, InsertRows (s, t) [''1'', ''2'', ''3'']] @ evs,
            Inl e)
     \<and> Commit \<notin> set (fst (load env self json_content))
     \<and> Rollback \<notin> set (fst (load env self json_content))"
proof -
  have l: "load env self json_content =
           ([GetConn (postgres_conn_id self), Cursor, InsertRows (s, t) [''1'', ''2'', ''3'']] @ evs,
            Inl e)"
    using assms by (simp add: load_def)
  from ex have "evs = fst (executemany env (s, t) [] lines)" by simp
  then have "Commit \<notin> set evs" "Rollback \<notin> set evs"
    using executemany_no_commit [of env "(s, t)" "[]" lines]
      executemany_no_rollback [of env "(s, t)" "[]" lines] by simp_all
  with l show ?thesis by simp
qed


theorem batch_failure_propagates_unwrapped_witness:
  "pg_get_conn (store None five_then_dup) (postgres_conn_id latest_operator) = None
   \<and> unwrap (schema latest_operator) = Inr (PStr ''public'')
   \<and> unwrap (table latest_operator) = Inr (PStr ''raw_load'')
   \<and> py_iter five_then_dup =
       Inr [record_of ''M100'', record_of ''M101'', record_of ''M102'', record_of ''M103'',
            record_of ''M104'', record_of ''M100'']
   \<and> snd (load (store None five_then_dup) latest_operator five_then_dup)
       = Inl (External ''UniqueViolation'')
   \<and> Commit \<notin> set (fst (load (store None five_then_dup) latest_operator five_then_dup))
   \<and> Rollback \<notin> set (fst (load (store None five_then_dup) latest_operator five_then_dup))"
proof -
  let ?env = "store None five_then_dup"
  let ?tgt = "(PStr ''public'', PStr ''raw_load'')"
  let ?lines = "[record_of ''M100'', record_of ''M101'', record_of ''M102'', record_of ''M103'',
        record_of ''M104'', record_of ''M100'']"
  obtain evs where ex: "executemany ?env ?tgt [] ?lines = (evs, Some (External ''UniqueViolation''))"
    using executemany_five_then_dup [of None five_then_dup ?tgt]
    by (cases "executemany ?env ?tgt [] ?lines") simp
  have h1: "pg_get_conn ?env (postgres_conn_id latest_operator) = None"
    by (simp add: store_simps)
  have h2: "unwrap (schema latest_operator) = Inr (PStr ''public'')"
    by (simp add: latest_operator_simps)
  have h3: "unwrap (table latest_operator) = Inr (PStr ''raw_load'')"
    by (simp add: latest_operator_simps)
  have h4: "pg_insert_rows ?env ?tgt [''1'', ''2'', ''3''] = None"
    by (simp add: store_simps)
  have h5: "py_iter five_then_dup = Inr ?lines"
    by (simp add: five_then_dup_def)
  from batch_failure_propagates_unwrapped [OF h1 h2 h3 h4 h5 ex] h1 h2 h3 h5
  show ?thesis by (elim conjE) simp
qed








text \<open>
  C2. The claim: a record lacking \<^verbatim>\<open>eviction_id\<close> makes the load fail with a
  \<open>MissingFieldError\<close> that names the record and the field, with nothing of the run
  loaded before. The display raises Python's \<open>KeyError\<close>, which carries the field name
  only, and it raises it when the cursor draws the record: the statement was already
  executed for the valid record before it.
\<close>

theorem missing_field_error_counterexample:
  "load (store None (JArr valid_then_missing)) latest_operator (JArr valid_then_missing) =
     ([GetConn (PStr ''postgres_default''), Cursor,
       InsertRows (PStr ''public'', PStr ''raw_load'') [''1'', ''2'', ''3''],
       Execute (PStr ''public'', PStr ''raw_load'')
         ([('':id'', JStr ''M100''), ('':created_at'', JStr ''2020-01-01''),
           ('':updated_at'', JStr ''2020-01-02''), (''eviction_id'', JStr ''M100'')]
          @ map (\<lambda>k. (k, JNull)) optional_fields)],
      Inl (KeyError ''eviction_id''))
   \<and> KeyError ''eviction_id'' \<noteq> MissingFieldError (JStr ''row-2'') ''eviction_id''"
  by (simp add: load_def valid_then_missing_def store_simps latest_operator_simps
        build_record_of build_no_eviction_id)


text \<open>
  C2, as the method behaves: when some record of the sequence lacks \<^verbatim>\<open>eviction_id\<close>,
  building its parameter group raises a \<open>KeyError\<close> naming the first missing field among
  \<^verbatim>\<open>:id\<close>, \<^verbatim>\<open>:created_at\<close>, \<^verbatim>\<open>:updated_at\<close> and \<^verbatim>\<open>eviction_id\<close>; the load ends with
  an error and \<^verbatim>\<open>commit\<close> is not called on the operator's connection. When the records
  before it are well formed and accepted by the table, the statement has been executed
  for each of them, in order, before the \<open>KeyError\<close> is raised, and that \<open>KeyError\<close> is
  what the caller receives.
\<close>

theorem missing_eviction_id_fails_without_commit:
  assumes mem: "JObj kvs \<in> set lines"
    and miss: "map_of kvs ''eviction_id'' = None"
  shows "build_params (JObj kvs) =
           Inl (KeyError (if map_of kvs '':id'' = None then '':id''
                    else if map_of kvs '':created_at'' = None then '':created_at''
                    else if map_of kvs '':updated_at'' = None then '':updated_at''
                    else ''eviction_id''))
     \<and> (\<exists>e. snd (load env self (JArr lines)) = Inl e)
     \<and> Commit \<notin> set (fst (load env self (JArr lines)))
     \<and> (\<forall>pre rest ps s t.
           lines = pre @ JObj kvs # rest
           \<and> map build_params pre = map Inr ps
           \<and> (\<forall>i < length ps. pg_execute env (take i ps) (ps ! i) = None)
           \<and> pg_get_conn env (postgres_conn_id self) = None
           \<and> unwrap (schema self) = Inr s
           \<and> unwrap (table self) = Inr t
           \<and> pg_insert_rows env (s, t) [''1'', ''2'', ''3''] = None
           \<longrightarrow>
           load env self (JArr lines) =
             ([GetConn (postgres_conn_id self), Cursor,
               InsertRows (s, t) [''1'', ''2'', ''3'']] @ map (Execute (s, t)) ps,
              Inl (KeyError (if map_of kvs '':id'' = None then '':id''
                    else if map_of kvs '':created_at'' = None then '':created_at''
                    else if map_of kvs '':updated_at'' = None then '':updated_at''
                    else ''eviction_id''))))"
proof -
  note b = build_params_missing [OF miss]
  have f: "\<exists>e. snd (executemany env tgt [] lines) = Some e" for tgt
    using executemany_fails [OF mem b] .
  have d: "load env self (JArr lines) =
             ([GetConn (postgres_conn_id self), Cursor,
               InsertRows (s, t) [''1'', ''2'', ''3'']] @ map (Execute (s, t)) ps,
              Inl (KeyError (if map_of kvs '':id'' = None then '':id''
                    else if map_of kvs '':created_at'' = None then '':created_at''
                    else if map_of kvs '':updated_at'' = None then '':updated_at''
                    else ''eviction_id'')))"
    if l: "lines = pre @ JObj kvs # rest"
      and m: "map build_params pre = map Inr ps"
      and a: "\<forall>i < length ps. pg_execute env (take i ps) (ps ! i) = None"
      and c: "pg_get_conn env (postgres_conn_id self) = None"
      and s: "unwrap (schema self) = Inr s"
      and t: "unwrap (table self) = Inr t"
      and i: "pg_insert_rows env (s, t) [''1'', ''2'', ''3''] = None"
    for pre rest ps s t
  proof -
    from a have "\<forall>i < length ps. pg_execute env ([] @ take i ps) (ps ! i) = None" by simp
    from executemany_stops_at_unbuildable [OF m this b, of "(s, t)" rest]
    have "executemany env (s, t) [] lines =
        (map (Execute (s, t)) ps, Some (KeyError (if map_of kvs '':id'' = None then '':id''
                    else if map_of kvs '':created_at'' = None then '':created_at''
                    else if map_of kvs '':updated_at'' = None then '':updated_at''
                    else ''eviction_id'')))"
      by (simp add: l)
    with c s t i b show ?thesis by (simp add: load_def)
  qed
  from load_fails_with_batch [of env lines self, OF f] b d show ?thesis by blast
qed


theorem missing_eviction_id_fails_without_commit_witness:
  "no_eviction_id \<in> set valid_then_missing
   \<and> build_params no_eviction_id = Inl (KeyError ''eviction_id'')
   \<and> Commit \<notin> set (fst (load (store None one_record) latest_operator (JArr valid_then_missing)))
   \<and> load (store None one_record) latest_operator (JArr valid_then_missing) =
       ([GetConn (PStr ''postgres_default''), Cursor,
         InsertRows (PStr ''public'', PStr ''raw_load'') [''1'', ''2'', ''3''],
         Execute (PStr ''public'', PStr ''raw_load'')
           ([('':id'', JStr ''M100''), ('':created_at'', JStr ''2020-01-01''),
             ('':updated_at'', JStr ''2020-01-02''), (''eviction_id'', JStr ''M100'')]
            @ map (\<lambda>k. (k, JNull)) optional_fields)],
        Inl (KeyError ''eviction_id''))"
proof -
  let ?env = "store None one_record"
  let ?kvs = "[('':id'', JStr ''row-2''), ('':created_at'', JStr ''2020-01-01''),
           ('':updated_at'', JStr ''2020-01-02''), (''address'', JStr ''100 Block Of Main St'')]"
  let ?p = "[('':id'', JStr ''M100''), ('':created_at'', JStr ''2020-01-01''),
             ('':updated_at'', JStr ''2020-01-02''), (''eviction_id'', JStr ''M100'')]
            @ map (\<lambda>k. (k, JNull)) optional_fields"
  have h1: "JObj ?kvs \<in> set valid_then_missing"
    by (simp add: valid_then_missing_def no_eviction_id_def)
  have h2: "map_of ?kvs ''eviction_id'' = None" by simp
  note r = missing_eviction_id_fails_without_commit [OF h1 h2, of ?env latest_operator]
  have d1: "valid_then_missing = [record_of ''M100''] @ JObj ?kvs # []"
    by (simp add: valid_then_missing_def no_eviction_id_def)
  have d2: "map build_params [record_of ''M100''] = map Inr [?p]"
    by (simp add: build_record_of)
  have d3: "\<forall>i < length [?p]. pg_execute ?env (take i [?p]) ([?p] ! i) = None"
    by (simp add: store_simps)
  have d4: "pg_get_conn ?env (postgres_conn_id latest_operator) = None"
    by (simp add: store_simps)
  have d5: "unwrap (schema latest_operator) = Inr (PStr ''public'')"
    by (simp add: latest_operator_simps)
  have d6: "unwrap (table latest_operator) = Inr (PStr ''raw_load'')"
    by (simp add: latest_operator_simps)
  have d7: "pg_insert_rows ?env (PStr ''public'', PStr ''raw_load'') [''1'', ''2'', ''3''] = None"
    by (simp add: store_simps)
  from r d1 d2 d3 d4 d5 d6 d7
  have l: "load ?env latest_operator (JArr valid_then_missing) =
       ([GetConn (postgres_conn_id latest_operator), Cursor,
         InsertRows (PStr ''public'', PStr ''raw_load'') [''1'', ''2'', ''3'']]
        @ map (Execute (PStr ''public'', PStr ''raw_load'')) [?p],
        Inl (KeyError (if map_of ?kvs '':id'' = None then '':id''
                    else if map_of ?kvs '':created_at'' = None then '':created_at''
                    else if map_of ?kvs '':updated_at'' = None then '':updated_at''
                    else ''eviction_id'')))"
    by blast
  from r have c: "Commit \<notin> set (fst (load ?env latest_operator (JArr valid_then_missing)))"
    by blast
  from l c h1 show ?thesis
    by (simp add: no_eviction_id_def latest_operator_simps build_no_eviction_id [unfolded no_eviction_id_def])
qed


text \<open>
  C3. The claim: \<^verbatim>\<open>raw_id\<close>, \<^verbatim>\<open>created_at\<close> and \<^verbatim>\<open>updated_at\<close> are filled by the
  target store and a record need not carry values for them. The dictionary display
  subscripts the record for \<^verbatim>\<open>:id\<close>, \<^verbatim>\<open>:created_at\<close> and \<^verbatim>\<open>:updated_at\<close>: a record
  without them stops the load with a \<open>KeyError\<close>.
\<close>

theorem system_columns_counterexample:
  "load (store None (JArr [eviction_id_and_address])) latest_operator
      (JArr [eviction_id_and_address]) =
     ([GetConn (PStr ''postgres_default''), Cursor,
       InsertRows (PStr ''public'', PStr ''raw_load'') [''1'', ''2'', ''3'']],
      Inl (KeyError '':id''))"
  by (simp add: load_def store_simps latest_operator_simps build_params_def
        eviction_id_and_address_def)


text \<open>
  C3, as the method behaves: whenever a parameter group is built for a record, the
  record is a mapping that contains \<^verbatim>\<open>:id\<close>, \<^verbatim>\<open>:created_at\<close> and \<^verbatim>\<open>:updated_at\<close>, and
  the statement writes exactly those three values of the record into the columns
  \<^verbatim>\<open>raw_id\<close>, \<^verbatim>\<open>created_at\<close> and \<^verbatim>\<open>updated_at\<close>.
\<close>

theorem system_columns_come_from_record:
  assumes "build_params line = Inr p"
  shows "\<exists>kvs. line = JObj kvs
     \<and> map_of kvs '':id'' \<noteq> None
     \<and> map_of kvs '':created_at'' \<noteq> None
     \<and> map_of kvs '':updated_at'' \<noteq> None
     \<and> column_value p ''raw_id'' = map_of kvs '':id''
     \<and> column_value p ''created_at'' = map_of kvs '':created_at''
     \<and> column_value p ''updated_at'' = map_of kvs '':updated_at''"
proof -
  from assms obtain kvs where l: "line = JObj kvs" using build_params_JObj by blast
  from assms l obtain v1 v2 v3 v4 where
    v: "map_of kvs '':id'' = Some v1" "map_of kvs '':created_at'' = Some v2"
       "map_of kvs '':updated_at'' = Some v3" "map_of kvs ''eviction_id'' = Some v4"
    by (auto simp: build_params_def split: option.splits)
  with assms l have p: "p = [('':id'', v1), ('':created_at'', v2), ('':updated_at'', v3),
              (''eviction_id'', v4)]
        @ map (\<lambda>k. (k, case map_of kvs k of None \<Rightarrow> JNull | Some v \<Rightarrow> v)) optional_fields"
    by (simp add: build_params_def get_all_JObj)
  have "column_value p ''raw_id'' = map_of kvs '':id''"
       "column_value p ''created_at'' = map_of kvs '':created_at''"
       "column_value p ''updated_at'' = map_of kvs '':updated_at''"
    by (simp_all add: column_of_system_fields p v)
  with l v show ?thesis by simp
qed


theorem system_columns_come_from_record_witness:
  "build_params (record_of ''M100'') =
     Inr ([('':id'', JStr ''M100''), ('':created_at'', JStr ''2020-01-01''),
           ('':updated_at'', JStr ''2020-01-02''), (''eviction_id'', JStr ''M100'')]
          @ map (\<lambda>k. (k, JNull)) optional_fields)
   \<and> column_value ([('':id'', JStr ''M100''), ('':created_at'', JStr ''2020-01-01''),
           ('':updated_at'', JStr ''2020-01-02''), (''eviction_id'', JStr ''M100'')]
          @ map (\<lambda>k. (k, JNull)) optional_fields) ''raw_id'' = Some (JStr ''M100'')"
  using system_columns_come_from_record [OF build_record_of [of "''M100''"]]
    build_record_of [of "''M100''"]
  by (simp add: record_of_def)


text \<open>
  C4. The claim: a record holding \<^verbatim>\<open>eviction_id\<close> and no other field yields a row
  whose optional columns are all null. For such a record no row is built at all: the
  first subscript, \<^verbatim>\<open>line[':id']\<close>, raises.
\<close>

theorem only_eviction_id_counterexample:
  "build_params only_eviction_id = Inl (KeyError '':id'')"
  by (simp add: build_params_def only_eviction_id_def)



text \<open>
  C4, as the method behaves: for a record that contains \<^verbatim>\<open>:id\<close>, \<^verbatim>\<open>:created_at\<close>,
  \<^verbatim>\<open>:updated_at\<close> and \<^verbatim>\<open>eviction_id\<close>, a parameter group is built; every optional
  column (address to neighborhood) whose field is absent holds the null value, and one
  whose field is present holds the record's value.
\<close>

theorem absent_optional_fields_are_null:
  assumes "map_of kvs '':id'' = Some v1"
    and "map_of kvs '':created_at'' = Some v2"
    and "map_of kvs '':updated_at'' = Some v3"
    and "map_of kvs ''eviction_id'' = Some v4"
  shows "\<exists>p. build_params (JObj kvs) = Inr p
     \<and> column_value p ''eviction_id'' = Some v4
     \<and> (\<forall>c \<in> set optional_fields. map_of kvs c = None \<longrightarrow> column_value p c = Some JNull)
     \<and> (\<forall>c \<in> set optional_fields. \<forall>v. map_of kvs c = Some v \<longrightarrow> column_value p c = Some v)"
proof -
  let ?p = "[('':id'', v1), ('':created_at'', v2), ('':updated_at'', v3), (''eviction_id'', v4)]
        @ map (\<lambda>k. (k, case map_of kvs k of None \<Rightarrow> JNull | Some v \<Rightarrow> v)) optional_fields"
  from assms have b: "build_params (JObj kvs) = Inr ?p"
    by (simp add: build_params_def get_all_JObj)
  have e: "column_value ?p ''eviction_id'' = Some v4"
    by (simp add: column_value_def columns_def placeholders_def)
  have o: "column_value ?p c = Some (case map_of kvs c of None \<Rightarrow> JNull | Some v \<Rightarrow> v)"
    if c: "c \<in> set optional_fields" for c
    using optional_not_required [OF c] map_of_tabulate [OF c]
    by (simp add: column_value_def optional_is_own_placeholder [OF c])
  have "\<forall>c \<in> set optional_fields. map_of kvs c = None \<longrightarrow> column_value ?p c = Some JNull"
    using o by simp
  moreover
  have "\<forall>c \<in> set optional_fields. \<forall>v. map_of kvs c = Some v \<longrightarrow> column_value ?p c = Some v"
    using o by simp
  ultimately show ?thesis using b e by blast
qed


theorem absent_optional_fields_are_null_witness:
  "map_of [('':id'', JStr ''M100''), ('':created_at'', JStr ''2020-01-01''),
           ('':updated_at'', JStr ''2020-01-02''), (''eviction_id'', JStr ''M100'')]
      ''eviction_id'' = Some (JStr ''M100'')
   \<and> ''neighborhood'' \<in> set optional_fields
   \<and> column_value ([('':id'', JStr ''M100''), ('':created_at'', JStr ''2020-01-01''),
           ('':updated_at'', JStr ''2020-01-02''), (''eviction_id'', JStr ''M100'')]
          @ map (\<lambda>k. (k, JNull)) optional_fields) ''neighborhood'' = Some JNull"
proof -
  let ?kvs = "[('':id'', JStr ''M100''), ('':created_at'', JStr ''2020-01-01''),
           ('':updated_at'', JStr ''2020-01-02''), (''eviction_id'', JStr ''M100'')]"
  have h1: "map_of ?kvs '':id'' = Some (JStr ''M100'')" by simp
  have h2: "map_of ?kvs '':created_at'' = Some (JStr ''2020-01-01'')" by simp
  have h3: "map_of ?kvs '':updated_at'' = Some (JStr ''2020-01-02'')" by simp
  have h4: "map_of ?kvs ''eviction_id'' = Some (JStr ''M100'')" by simp
  have n: "''neighborhood'' \<in> set optional_fields" by (simp add: optional_fields_def)
  have a: "map_of ?kvs ''neighborhood'' = None" by simp
  from absent_optional_fields_are_null [OF h1 h2 h3 h4] obtain p where
    b: "build_params (JObj ?kvs) = Inr p" and
    z: "\<forall>c \<in> set optional_fields. map_of ?kvs c = None \<longrightarrow> column_value p c = Some JNull"
    by blast
  from b build_record_of [of "''M100''"] have "p = ?kvs @ map (\<lambda>k. (k, JNull)) optional_fields"
    by (simp add: record_of_def)
  with z n a h4 show ?thesis by blast
qed


text \<open>
  C5. The claim: when latest mode is not requested, the object named by the
  configuration is read, without a listing. The method assigns \<^verbatim>\<open>s3_obj\<close> only inside
  the latest-mode branch; in every other run, the default configuration included, line
  62 reads an unbound local variable and the run ends there: no listing, and no object
  read either.
\<close>

theorem not_latest_is_unbound:
  assumes "\<not> eq_True (get_latest self)"
    and "s3_client env (s3_conn_id self) = None"
  shows "execute env self = ([], Inl (UnboundLocalError ''s3_obj''))"
  using assms by (simp add: execute_def select_source_def decode_def)

theorem not_latest_is_unbound_witness:
  "\<not> eq_True (get_latest default_operator)
   \<and> s3_client (store (Some three_objects) one_record) (s3_conn_id default_operator) = None
   \<and> execute (store (Some three_objects) one_record) default_operator =
       ([], Inl (UnboundLocalError ''s3_obj''))"
proof -
  have h1: "\<not> eq_True (get_latest default_operator)"
    by (simp add: default_operator_def S3ToPostgresOperator_init_def)
  have h2: "s3_client (store (Some three_objects) one_record) (s3_conn_id default_operator) = None"
    by (simp add: store_simps)
  from not_latest_is_unbound [OF h1 h2] h1 h2 show ?thesis by simp
qed


text \<open>
  C6. The claim: in latest mode an empty listing fails with \<open>NotFoundError\<close>. A response
  without a \<^verbatim>\<open>Contents\<close> entry, which is what the store answers for a prefix with no
  objects, makes the subscript on line 58 raise \<open>KeyError\<close>.
\<close>

theorem not_found_error_counterexample:
  "execute (store None one_record) latest_operator =
     ([ListObjectsV2 (PStr ''sf-evictions'') (PStr ''raw/'')], Inl (KeyError ''Contents''))
   \<and> KeyError ''Contents'' \<noteq> NotFoundError"
  by (simp add: execute_def select_source_def store_simps latest_operator_simps)


text \<open>
  C6, as the method behaves: in latest mode, a listing response without a
  \<^verbatim>\<open>Contents\<close> entry fails with \<open>KeyError\<close> naming \<^verbatim>\<open>Contents\<close>, and an empty
  \<^verbatim>\<open>Contents\<close> list fails with the \<open>ValueError\<close> of \<^verbatim>\<open>max\<close>; in both cases the run
  ends after the listing call, before any object is read.
\<close>

theorem empty_listing_fails_before_reading:
  assumes "eq_True (get_latest self)"
    and "s3_client env (s3_conn_id self) = None"
    and "list_objects_v2 env (s3_bucket self) (s3_prefix self) = Inr listing"
    and "listing = None \<or> listing = Some []"
  shows "execute env self =
           ([ListObjectsV2 (s3_bucket self) (s3_prefix self)],
            Inl (if listing = None then KeyError ''Contents'' else ValueError))"
  using assms by (auto simp: execute_def select_source_def py_max_def)

theorem empty_listing_fails_before_reading_witness:
  "eq_True (get_latest latest_operator)
   \<and> list_objects_v2 (store (Some []) one_record) (s3_bucket latest_operator)
        (s3_prefix latest_operator) = Inr (Some [])
   \<and> execute (store (Some []) one_record) latest_operator =
       ([ListObjectsV2 (PStr ''sf-evictions'') (PStr ''raw/'')], Inl ValueError)"
proof -
  let ?env = "store (Some []) one_record"
  have h1: "eq_True (get_latest latest_operator)" by (simp add: latest_operator_simps)
  have h2: "s3_client ?env (s3_conn_id latest_operator) = None" by (simp add: store_simps)
  have h3: "list_objects_v2 ?env (s3_bucket latest_operator) (s3_prefix latest_operator)
      = Inr (Some [])" by (simp add: store_simps)
  have h4: "Some [] = None \<or> Some [] = Some ([] :: s3_object list)" by simp
  from empty_listing_fails_before_reading [OF h1 h2 h3 h4] h1 h3
  show ?thesis by (simp add: latest_operator_simps)
qed


text \<open>
  C8. The claim: a document whose top-level value is not a sequence, or that has an
  element that is not a flat mapping, makes decoding fail with \<open>FormatError\<close>. Decoding
  is \<^verbatim>\<open>json.loads\<close> and nothing else: a document that is an empty object is decoded,
  iterated (no keys, so no parameter group), and the run commits.
\<close>

theorem format_error_counterexample:
  "execute (store (Some three_objects) (JObj [])) latest_operator =
     ([ListObjectsV2 (PStr ''sf-evictions'') (PStr ''raw/''),
       GetObject (PStr ''sf-evictions'') ''raw/b.json'',
       GetConn (PStr ''postgres_default''), Cursor,
       InsertRows (PStr ''public'', PStr ''raw_load'') [''1'', ''2'', ''3''],
       Commit, CursorClose], Inr ())"
  by (simp add: execute_def select_source_def decode_def load_def store_simps
        latest_operator_simps three_objects_def py_max_def)


text \<open>
  C8, as the method behaves: a payload that decodes as UTF-8 and parses is returned by
  the decoding step whatever its shape. The shape matters only while loading: a
  top-level value that is not a sequence is either not iterable, which raises
  \<open>TypeError\<close> when the generator is created, or iterates into strings, each raising
  \<open>TypeError\<close> when its parameter group is built; and an element of a sequence that is not
  a mapping raises \<open>TypeError\<close> when its parameter group is built.
\<close>

theorem decode_does_not_check_shape:
  assumes "utf8_decode env body = Inr text"
    and "json_loads env text = Inr v"
  shows "decode env (Some body) = Inr v
     \<and> (\<not> is_sequence v \<longrightarrow>
          py_iter v = Inl TypeError
          \<or> (\<exists>lines. py_iter v = Inr lines
                \<and> (\<forall>line \<in> set lines. build_params line = Inl TypeError)))
     \<and> (\<forall>lines. v = JArr lines \<longrightarrow>
          (\<forall>line \<in> set lines. \<not> is_mapping line \<longrightarrow> build_params line = Inl TypeError))"
proof -
  from assms have d: "decode env (Some body) = Inr v" by (simp add: decode_def)
  have n: "py_iter v = Inl TypeError
          \<or> (\<exists>lines. py_iter v = Inr lines
                \<and> (\<forall>line \<in> set lines. build_params line = Inl TypeError))"
    if ns: "\<not> is_sequence v"
  proof (cases "py_iter v")
    case (Inl e)
    then show ?thesis by (cases v) auto
  next
    case (Inr lines)
    with ns py_iter_not_sequence have "\<forall>line \<in> set lines. \<not> is_mapping line" by blast
    with Inr build_params_not_mapping show ?thesis by blast
  qed
  from d n build_params_not_mapping show ?thesis by blast
qed

theorem decode_does_not_check_shape_witness:
  "utf8_decode (store (Some three_objects) (JObj [(''eviction_id'', JStr ''M100'')]))
      ''raw/b.json'' = Inr ''raw/b.json''
   \<and> decode (store (Some three_objects) (JObj [(''eviction_id'', JStr ''M100'')]))
      (Some ''raw/b.json'') = Inr (JObj [(''eviction_id'', JStr ''M100'')])
   \<and> py_iter (JObj [(''eviction_id'', JStr ''M100'')]) = Inr [JStr ''eviction_id'']
   \<and> build_params (JStr ''eviction_id'') = Inl TypeError"
proof -
  let ?v = "JObj [(''eviction_id'', JStr ''M100'')]"
  let ?env = "store (Some three_objects) ?v"
  have h1: "utf8_decode ?env ''raw/b.json'' = Inr ''raw/b.json''" by (simp add: store_simps)
  have h2: "json_loads ?env ''raw/b.json'' = Inr ?v" by (simp add: store_simps)
  have i: "py_iter ?v = Inr [JStr ''eviction_id'']" by simp
  from decode_does_not_check_shape [OF h1 h2] i h1 show ?thesis by auto
qed

end
